theory Spec2Isabelle
  imports Main "HOL-Library.Multiset"
begin

section \<open>Values shared by the engine\<close>

text \<open>
  Go strings and byte slices are byte sequences; both are modelled as \<open>string\<close>, and the
  conversion \<open>string(res.Body)\<close> is the identity. A Go \<open>error\<close> value is modelled by its
  message. A run-time panic (a nil dereference) is not an error value that a caller can
  inspect: it is a separate outcome.
\<close>

datatype error = Error string

datatype 'a outcome = Returned 'a | Panicked string

fun Error_msg :: "error \<Rightarrow> string" where
  "Error_msg (Error m) = m"

text \<open>\<open>http.Header\<close> is \<open>map[string][]string\<close>.\<close>

type_synonym Header = "string \<rightharpoonup> string list"

text \<open>
  \<open>map[string]interface{}\<close>: a Go map value is nil or a finite map. The element type
  \<open>interface{}\<close> is the parameter \<open>'v\<close>, as only the codecs look inside it.
\<close>

type_synonym 'v gomap = "(string \<rightharpoonup> 'v) option"

subsection \<open>Structs of \<open>HttpInvoker.go\<close>\<close>

record HttpInvokerOptions =
  opts_PDP :: string
  opts_Version :: string

record TestGenerator =
  gen_Version :: string

text \<open>\<open>generator\<close> is a pointer: nil in the zero value of the struct.\<close>

record HttpInvoker =
  pdp :: string
  generator :: "TestGenerator option"

record HttpHeader =
  hdr_Name :: string
  hdr_Value :: string

record HttpRequest =
  req_Method :: string
  req_Url :: string
  req_PDP :: string
  req_Path :: string
  req_Headers :: "HttpHeader list"
  req_Body :: string

record HttpResponse =
  res_Status :: string
  res_StatusCode :: int
  res_Version :: string
  res_Header :: Header
  res_ContentLength :: int
  res_Body :: string

subsection \<open>Assertion structs\<close>

text \<open>
  The declarations of \<open>TestCase\<close>, \<open>Expectation\<close>, \<open>MeasureStatusCode\<close>, \<open>MeasureHeaders\<close>,
  \<open>MeasureHeader\<close> and \<open>MeasureBody\<close> are in another file of the package; the records hold
  the fields that \<open>HttpInvoker.go\<close> assigns. Every pointer field is an option.
\<close>

record MeasureStatusCode =
  sc_IsEqualTo :: "int option"

record MeasureHeader =
  mh_Name :: "string option"
  mh_IsEqualTo :: "string option"

record MeasureHeaders =
  hs_HasTotal :: "int option"
  hs_Items :: "MeasureHeader list"

record MeasureBody =
  b_HasFormat :: "string option"
  b_Includes :: "string option"
  b_IsEqualTo :: "string option"
  b_MatchWith :: "string option"

record Expectation =
  exp_StatusCode :: "MeasureStatusCode option"
  exp_Headers :: "MeasureHeaders option"
  exp_Body :: "MeasureBody option"

record TestCase =
  tc_Title :: string
  tc_Version :: string
  tc_Request :: "HttpRequest option"
  tc_Expectation :: "Expectation option"

record GeneratedSnapshot =
  TestCases :: "TestCase list"

definition DEFAULT_PDP :: string where
  "DEFAULT_PDP = ''http://localhost:17779''"

subsection \<open>The libraries, as parameters\<close>

text \<open>
  \<open>encoding/json\<close> and \<open>gopkg.in/yaml.v2\<close> are not code of this repository. Their
  functions are fields of a record that the engine's functions take as an argument.
  \<open>Unmarshal(data, &obj)\<close> writes through the pointer and returns an error or nil, so the
  model returns the map it leaves behind together with the error. \<open>yaml.Marshal\<close> is used
  at two types and so has two fields.
\<close>

record 'v codec =
  json_Unmarshal :: "string \<Rightarrow> 'v gomap \<Rightarrow> 'v gomap \<times> error option"
  json_MarshalIndent :: "'v gomap \<Rightarrow> string \<Rightarrow> string \<Rightarrow> error + string"
  yaml_Unmarshal :: "string \<Rightarrow> 'v gomap \<Rightarrow> 'v gomap \<times> error option"
  yaml_Marshal :: "'v gomap \<Rightarrow> error + string"
  yaml_Marshal_snapshot :: "GeneratedSnapshot \<Rightarrow> error + string"

text \<open>
  Modelled from the spec: \<open>utils.RefOfString\<close> is not among the sources. The body
  assertion of the spec carries the tag, the exact value and the pattern themselves, so
  the helper returns a reference to its argument.
\<close>

definition RefOfString :: "string \<Rightarrow> string option" where
  "RefOfString s = Some s"

section \<open>Expectation synthesis\<close>

text \<open>
  \<open>for key, vals := range res.Header\<close> visits every key of the map once, in an order that
  the Go run time chooses anew for each loop. The order is the argument \<open>ks\<close> of the
  functions that range over a map; \<open>range_order h ks\<close> says that \<open>ks\<close> is an order the
  run time can choose for \<open>h\<close>.
\<close>

definition range_order :: "Header \<Rightarrow> string list \<Rightarrow> bool" where
  "range_order h ks \<longleftrightarrow> distinct ks \<and> set ks = dom h"

text \<open>One iteration of the loop over the headers (lines 241 to 249).\<close>

definition header_item :: "Header \<Rightarrow> string \<Rightarrow> MeasureHeader list" where
  "header_item h key =
     (case h key of
        None \<Rightarrow> []
      | Some vals \<Rightarrow>
          if length vals = 1
          then [\<lparr>mh_Name = Some key, mh_IsEqualTo = Some (vals ! 0)\<rparr>]
          else [])"

fun header_items :: "Header \<Rightarrow> string list \<Rightarrow> MeasureHeader list \<Rightarrow> MeasureHeader list" where
  "header_items h [] items = items"
| "header_items h (key # ks) items = header_items h ks (items @ header_item h key)"

text \<open>Lines 233 to 251: \<open>len(res.Header)\<close> is the number of keys of the map.\<close>

definition synth_headers :: "string list \<Rightarrow> Header \<Rightarrow> MeasureHeaders option" where
  "synth_headers ks h =
     (let total = int (card (dom h)) in
      if total > 0
      then Some \<lparr>hs_HasTotal = Some total, hs_Items = header_items h ks []\<rparr>
      else None)"

text \<open>
  Lines 256 to 287. The state of the three attempts is the map \<open>obj\<close>, shared by both
  decoders, and the body assertion under construction.
\<close>

definition sniff_json :: "'v codec \<Rightarrow> string \<Rightarrow> 'v gomap \<times> MeasureBody \<Rightarrow> 'v gomap \<times> MeasureBody" where
  "sniff_json cd body st =
     (case st of (obj, b) \<Rightarrow>
        if b_HasFormat b = None
        then (case json_Unmarshal cd body obj of
                (obj', None) \<Rightarrow>
                  (obj', b\<lparr>b_HasFormat := RefOfString ''json'',
                          b_Includes := Some (case json_MarshalIndent cd obj' '''' ''  '' of
                                                Inr out \<Rightarrow> out
                                              | Inl err \<Rightarrow> body)\<rparr>)
              | (obj', Some err) \<Rightarrow> (obj', b))
        else (obj, b))"

definition sniff_yaml :: "'v codec \<Rightarrow> string \<Rightarrow> 'v gomap \<times> MeasureBody \<Rightarrow> 'v gomap \<times> MeasureBody" where
  "sniff_yaml cd body st =
     (case st of (obj, b) \<Rightarrow>
        if b_HasFormat b = None
        then (case yaml_Unmarshal cd body obj of
                (obj', None) \<Rightarrow>
                  (obj', b\<lparr>b_HasFormat := RefOfString ''yaml'',
                          b_Includes := Some (case yaml_Marshal cd obj' of
                                                Inr out \<Rightarrow> out
                                              | Inl err \<Rightarrow> body)\<rparr>)
              | (obj', Some err) \<Rightarrow> (obj', b))
        else (obj, b))"

definition sniff_flat :: "string \<Rightarrow> 'v gomap \<times> MeasureBody \<Rightarrow> 'v gomap \<times> MeasureBody" where
  "sniff_flat body st =
     (case st of (obj, b) \<Rightarrow>
        if b_HasFormat b = None
        then (obj, b\<lparr>b_HasFormat := RefOfString ''flat'',
                      b_IsEqualTo := RefOfString body,
                      b_MatchWith := RefOfString ''.*''\<rparr>)
        else (obj, b))"

definition synth_body :: "'v codec \<Rightarrow> string \<Rightarrow> MeasureBody" where
  "synth_body cd body =
     snd (sniff_flat body
       (sniff_yaml cd body
         (sniff_json cd body
           (Some Map.empty,
            \<lparr>b_HasFormat = None, b_Includes = None, b_IsEqualTo = None, b_MatchWith = None\<rparr>))))"

definition generateExpectation ::
  "'v codec \<Rightarrow> string list \<Rightarrow> HttpResponse option \<Rightarrow> Expectation option" where
  "generateExpectation cd ks res =
     (case res of
        None \<Rightarrow> None
      | Some r \<Rightarrow>
          Some \<lparr>exp_StatusCode = Some \<lparr>sc_IsEqualTo = Some (res_StatusCode r)\<rparr>,
                exp_Headers = synth_headers ks (res_Header r),
                exp_Body = Some (synth_body cd (res_Body r))\<rparr>)"

section \<open>Output and the interceptors\<close>

text \<open>
  An \<open>io.Writer\<close> is known by its identity; two interceptors may hand out the same one.
  What the engine does to the world is a list of events in the order they happen: a
  \<open>Fprintln\<close> on a writer with the text it prints, a call of an interceptor's getter,
  the network call, the draining of the response body and its release.
\<close>

type_synonym Writer = nat

record URL =
  url_RequestURI :: string
  url_Path :: string
  url_Host :: string

record LowRequest =
  lr_Method :: string
  lr_URL :: "URL option"
  lr_Proto :: string
  lr_Header :: Header
  lr_Body :: "string option"

record LowResponse =
  lres_Proto :: string
  lres_Status :: string
  lres_StatusCode :: int
  lres_Header :: Header
  lres_Body :: "(string \<times> error option) option"

datatype event =
    Write Writer string
  | GetConsoleOut nat
  | GetTargetWriter nat
  | RoundTrip LowRequest
  | ReadAll
  | Close

text \<open>
  The type assertion \<open>interceptor.(ExplanationWriter)\<close> succeeds when the value has the
  methods \<open>GetConsoleOut\<close> and \<open>GetConsoleErr\<close>; the field then holds what the two
  getters return (nil is \<open>None\<close>). Likewise for \<open>SnapshotGenerator\<close> and
  \<open>GetTargetWriter\<close>. A value with neither capability has \<open>None\<close> in both fields.
\<close>

record Interceptor =
  ic_ExplanationWriter :: "(Writer option \<times> Writer option) option"
  ic_SnapshotGenerator :: "Writer option option"

text \<open>
  The loops over a header map inside one call of \<open>Do\<close> are told apart by where they run
  and for which interceptor; the run time's choice of order for each is a function of
  that place.
\<close>

datatype site = PreRender nat | PostRender nat | Synth nat

text \<open>
  \<open>net/http\<close> and \<open>io/ioutil\<close> are parameters too. \<open>url_RequestURI\<close> holds the result of
  the method \<open>RequestURI()\<close>, and \<open>lres_Body\<close> what \<open>ioutil.ReadAll\<close> yields on the body
  stream. \<open>UrlJoin\<close> is \<open>utils.UrlJoin\<close>, a helper of this repository that is not among
  the sources. The third argument of \<open>http.NewRequest\<close> is the variable \<open>body\<close>, a
  \<open>*bytes.Buffer\<close> that is still nil when the request has no body (\<open>None\<close>); what the
  library does with a nil buffer behind a non-nil \<open>io.Reader\<close> is its own affair, so the
  field may panic as well as return.
\<close>

record net =
  UrlJoin :: "string \<Rightarrow> string \<Rightarrow> string \<times> error option"
  http_NewRequest :: "string \<Rightarrow> string \<Rightarrow> string option \<Rightarrow> (error + LowRequest) outcome"
  Header_Add :: "Header \<Rightarrow> string \<Rightarrow> string \<Rightarrow> Header"
  Request_UserAgent :: "LowRequest \<Rightarrow> string"
  Client_Do :: "LowRequest \<Rightarrow> LowResponse option \<times> error option"

definition nl :: string where
  "nl = [CHR 0x0A]"

fun Join :: "string list \<Rightarrow> string \<Rightarrow> string" where
  "Join [] sep = []"
| "Join [a] sep = a"
| "Join (a # b # bs) sep = a @ sep @ Join (b # bs) sep"

text \<open>\<open>fmt.Fprintln\<close>: the operands separated by spaces, then a newline.\<close>

definition Fprintln :: "Writer \<Rightarrow> string list \<Rightarrow> event" where
  "Fprintln w operands = Write w (Join operands '' '' @ nl)"

fun show_nat :: "nat \<Rightarrow> string" where
  "show_nat n =
     (if n < 10 then [''0123456789'' ! n]
      else show_nat (n div 10) @ [''0123456789'' ! (n mod 10)])"

declare show_nat.simps [simp del]

text \<open>\<open>fmt.Sprintf("%v", n)\<close> for an \<open>int\<close>.\<close>

definition Sprintf_v :: "int \<Rightarrow> string" where
  "Sprintf_v n = (if n < 0 then ''-'' @ show_nat (nat (- n)) else show_nat (nat n))"

definition header_lines :: "Writer \<Rightarrow> string \<Rightarrow> Header \<Rightarrow> string list \<Rightarrow> event list" where
  "header_lines w prefix h ks =
     concat (map (\<lambda>key.
       case h key of
         None \<Rightarrow> []
       | Some vals \<Rightarrow> map (\<lambda>val. Fprintln w [prefix @ key @ '': '' @ val]) vals) ks)"

definition renderRequest :: "net \<Rightarrow> string list \<Rightarrow> Writer \<Rightarrow> LowRequest \<Rightarrow> event list" where
  "renderRequest nt ks w req =
     (let line = [''>'']
            @ (if length (lr_Method req) > 0 then [lr_Method req] else [])
            @ (case lr_URL req of
                 None \<Rightarrow> []
               | Some u \<Rightarrow>
                   if length (url_RequestURI u) > 0 then [url_RequestURI u]
                   else if length (url_Path u) > 0 then [url_Path u] else [])
            @ (if length (lr_Proto req) > 0 then [lr_Proto req] else []);
          userAgent = Request_UserAgent nt req
      in [Fprintln w [Join line '' '']]
         @ (case lr_URL req of
              None \<Rightarrow> []
            | Some u \<Rightarrow>
                if length (url_Host u) > 0 then [Fprintln w [''> Host: '' @ url_Host u]] else [])
         @ (if length userAgent > 0 then [Fprintln w [''> User-Agent: '' @ userAgent]] else [])
         @ header_lines w ''> '' (lr_Header req) ks
         @ [Fprintln w [''>'']])"

definition renderResponse :: "string list \<Rightarrow> Writer \<Rightarrow> HttpResponse \<Rightarrow> event list" where
  "renderResponse ks w res =
     (let line = [''<'']
            @ (if length (res_Version res) > 0 then [res_Version res] else [])
            @ (if length (res_Status res) > 0 then [res_Status res]
               else [Sprintf_v (res_StatusCode res)])
      in [Fprintln w [Join line '' '']]
         @ header_lines w ''< '' (res_Header res) ks
         @ [Fprintln w [''<'']]
         @ [Fprintln w [res_Body res]])"

section \<open>The snapshot serializer\<close>

text \<open>
  Lines 201 to 219. The receiver \<open>g\<close> is a pointer; reading \<open>g.Version\<close> through a nil
  pointer panics before anything is written. The result is the events and what the
  function returns: nil (\<open>None\<close>) or the error of \<open>yaml.Marshal\<close>.
\<close>

definition generated_case ::
  "'v codec \<Rightarrow> string list \<Rightarrow> TestGenerator \<Rightarrow> HttpRequest option \<Rightarrow> HttpResponse option \<Rightarrow> TestCase" where
  "generated_case cd ks g req res =
     \<lparr>tc_Title = ''<Generated testcase>'',
      tc_Version = gen_Version g,
      tc_Request = req,
      tc_Expectation = generateExpectation cd ks res\<rparr>"

definition generateTestCase ::
  "'v codec \<Rightarrow> string list \<Rightarrow> TestGenerator option \<Rightarrow> Writer \<Rightarrow> HttpRequest option \<Rightarrow>
     HttpResponse option \<Rightarrow> event list \<times> error option outcome" where
  "generateTestCase cd ks g w req res =
     (case g of
        None \<Rightarrow> ([], Panicked ''invalid memory address or nil pointer dereference'')
      | Some gen \<Rightarrow>
          (let s = generated_case cd ks gen req res;
               r = \<lparr>TestCases = [s]\<rparr>
           in case yaml_Marshal_snapshot cd r of
                Inl err \<Rightarrow>
                  ([Fprintln w [''Cannot marshal generated testcase, error: %s'', Error_msg err]],
                   Returned (Some err))
              | Inr script \<Rightarrow>
                  ([Fprintln w [], Fprintln w [script]], Returned None)))"

section \<open>The invoker\<close>

text \<open>
  Lines 26 to 37. \<open>opts.Version\<close> is read outside the nil check, so a nil \<open>opts\<close> panics.
\<close>

definition NewHttpInvoker :: "HttpInvokerOptions option \<Rightarrow> (HttpInvoker \<times> error option) outcome" where
  "NewHttpInvoker opts =
     (case opts of
        None \<Rightarrow> Panicked ''invalid memory address or nil pointer dereference''
      | Some p \<Rightarrow>
          Returned
            (\<lparr>pdp = (if length (opts_PDP p) = 0 then DEFAULT_PDP else opts_PDP p),
              generator = Some \<lparr>gen_Version = opts_Version p\<rparr>\<rparr>,
             None))"

text \<open>Lines 44 to 55; the error of \<open>UrlJoin\<close> is dropped.\<close>

definition resolveUrl :: "net \<Rightarrow> HttpInvoker \<Rightarrow> HttpRequest \<Rightarrow> string" where
  "resolveUrl nt c req =
     (if length (req_Url req) = 0
      then (let pdp' = (if length (req_PDP req) > 0 then req_PDP req else pdp c);
                basePath = (if length (req_Path req) > 0 then req_Path req else ''/$'')
            in fst (UrlJoin nt pdp' basePath))
      else req_Url req)"

text \<open>Lines 78 to 82.\<close>

fun add_headers :: "net \<Rightarrow> HttpHeader list \<Rightarrow> LowRequest \<Rightarrow> LowRequest" where
  "add_headers nt [] lowReq = lowReq"
| "add_headers nt (header # hs) lowReq =
     add_headers nt hs
       (if length (hdr_Name header) > 0 \<and> length (hdr_Value header) > 0
        then lowReq\<lparr>lr_Header := Header_Add nt (lr_Header lowReq) (hdr_Name header) (hdr_Value header)\<rparr>
        else lowReq)"

text \<open>Lines 85 to 92; \<open>i\<close> is the position of the interceptor in the argument list.\<close>

fun preProcess :: "net \<Rightarrow> (site \<Rightarrow> string list) \<Rightarrow> LowRequest \<Rightarrow> nat \<Rightarrow> Interceptor list \<Rightarrow> event list" where
  "preProcess nt ro lowReq i [] = []"
| "preProcess nt ro lowReq i (ic # ics) =
     (case ic_ExplanationWriter ic of
        None \<Rightarrow> []
      | Some (out, err) \<Rightarrow>
          GetConsoleOut i #
          (case out of
             None \<Rightarrow> []
           | Some w \<Rightarrow> renderRequest nt (ro (PreRender i)) w lowReq))
     @ preProcess nt ro lowReq (Suc i) ics"

text \<open>
  One round of the loop of lines 116 to 129. What \<open>generateTestCase\<close> returns is not
  assigned; only a panic leaves the loop.
\<close>

definition post_explain :: "(site \<Rightarrow> string list) \<Rightarrow> HttpResponse \<Rightarrow> nat \<Rightarrow> Interceptor \<Rightarrow> event list" where
  "post_explain ro res i ic =
     (case ic_ExplanationWriter ic of
        None \<Rightarrow> []
      | Some (out, err) \<Rightarrow>
          GetConsoleOut i #
          (case out of
             None \<Rightarrow> []
           | Some w \<Rightarrow> renderResponse (ro (PostRender i)) w res))"

definition post_snapshot ::
  "'v codec \<Rightarrow> (site \<Rightarrow> string list) \<Rightarrow> TestGenerator option \<Rightarrow> HttpRequest \<Rightarrow> HttpResponse \<Rightarrow>
     nat \<Rightarrow> Interceptor \<Rightarrow> event list \<times> string option" where
  "post_snapshot cd ro g req res i ic =
     (case ic_SnapshotGenerator ic of
        None \<Rightarrow> ([], None)
      | Some tw \<Rightarrow>
          (case tw of
             None \<Rightarrow> ([GetTargetWriter i], None)
           | Some w \<Rightarrow>
               (case generateTestCase cd (ro (Synth i)) g w (Some req) (Some res) of
                  (evs, Panicked msg) \<Rightarrow> (GetTargetWriter i # evs, Some msg)
                | (evs, Returned err) \<Rightarrow> (GetTargetWriter i # evs, None))))"

fun postProcess ::
  "'v codec \<Rightarrow> (site \<Rightarrow> string list) \<Rightarrow> TestGenerator option \<Rightarrow> HttpRequest \<Rightarrow> HttpResponse \<Rightarrow>
     nat \<Rightarrow> Interceptor list \<Rightarrow> event list \<times> string option" where
  "postProcess cd ro g req res i [] = ([], None)"
| "postProcess cd ro g req res i (ic # ics) =
     (case post_snapshot cd ro g req res i ic of
        (evs, Some msg) \<Rightarrow> (post_explain ro res i ic @ evs, Some msg)
      | (evs, None) \<Rightarrow>
          (case postProcess cd ro g req res (Suc i) ics of
             (rest, p) \<Rightarrow> (post_explain ro res i ic @ evs @ rest, p)))"

text \<open>Lines 103 to 110: the captured response. \<open>ContentLength\<close> is never assigned.\<close>

definition capture :: "LowResponse \<Rightarrow> string \<Rightarrow> HttpResponse" where
  "capture lowRes bytes =
     \<lparr>res_Status = lres_Status lowRes,
      res_StatusCode = lres_StatusCode lowRes,
      res_Version = lres_Proto lowRes,
      res_Header = lres_Header lowRes,
      res_ContentLength = 0,
      res_Body = bytes\<rparr>"

text \<open>
  Lines 39 to 132. The result is the events and either a panic or what \<open>Do\<close> returns:
  \<open>Inl err\<close> for \<open>(nil, err)\<close> and \<open>Inr res\<close> for \<open>(res, nil)\<close>. The deferred \<open>Close\<close> is the
  last event of every path on which it was registered. The fixed timeout of the client
  is part of \<open>Client_Do\<close>.
\<close>

definition Do ::
  "net \<Rightarrow> 'v codec \<Rightarrow> (site \<Rightarrow> string list) \<Rightarrow> HttpInvoker \<Rightarrow> HttpRequest option \<Rightarrow>
     Interceptor list \<Rightarrow> event list \<times> (error + HttpResponse) outcome" where
  "Do nt cd ro c request interceptors =
     (case request of
        None \<Rightarrow> ([], Returned (Inl (Error ''Request must not be nil'')))
      | Some req \<Rightarrow>
          (let url = resolveUrl nt c req;
               method = (if length (req_Method req) > 0 then req_Method req else ''GET'');
               body = (if length (req_Body req) > 0 then Some (req_Body req) else None)
           in case http_NewRequest nt method url body of
                Panicked msg \<Rightarrow> ([], Panicked msg)
              | Returned (Inl err) \<Rightarrow> ([], Returned (Inl err))
              | Returned (Inr lowReq0) \<Rightarrow>
                  (let lowReq = add_headers nt (req_Headers req) lowReq0;
                       pre = preProcess nt ro lowReq 0 interceptors @ [RoundTrip lowReq]
                   in case Client_Do nt lowReq of
                        (None, Some err) \<Rightarrow> (pre, Returned (Inl err))
                      | (None, None) \<Rightarrow>
                          (pre, Panicked ''invalid memory address or nil pointer dereference'')
                      | (Some lowRes, Some err) \<Rightarrow>
                          (pre @ (if lres_Body lowRes \<noteq> None then [Close] else []),
                           Returned (Inl err))
                      | (Some lowRes, None) \<Rightarrow>
                          (case lres_Body lowRes of
                             None \<Rightarrow>
                               (pre, Panicked ''invalid memory address or nil pointer dereference'')
                           | Some (bytes, Some err) \<Rightarrow>
                               (pre @ [ReadAll, Close], Returned (Inl err))
                           | Some (bytes, None) \<Rightarrow>
                               (let res = capture lowRes bytes
                                in case postProcess cd ro (generator c) req res 0 interceptors of
                                     (post, Some msg) \<Rightarrow>
                                       (pre @ [ReadAll] @ post @ [Close], Panicked msg)
                                   | (post, None) \<Rightarrow>
                                       (pre @ [ReadAll] @ post @ [Close], Returned (Inr res)))))))"


section \<open>Stand-ins for the libraries\<close>

text \<open>
  The theorems below hold for every codec and every transport. To apply them to concrete
  responses, \<open>demo_codec\<close> answers as the two libraries do on four bodies: the JSON
  object \<open>{"a":1}\<close> and its indented form, the YAML mapping \<open>a: 1\<close>, and the empty
  body, on which \<open>json.Unmarshal\<close> fails with "unexpected end of JSON input" and
  \<open>yaml.Unmarshal\<close> returns nil without touching the map. Every other body is
  rejected by both decoders.
\<close>

definition pretty_a1 :: string where
  \<open>pretty_a1 = ''{'' @ nl @ ''  "a": 1'' @ nl @ ''}''\<close>

definition demo_codec :: "int codec" where
  \<open>demo_codec =
     \<lparr>json_Unmarshal = (\<lambda>body obj.
         if body = ''{"a":1}'' \<or> body = pretty_a1
         then (Some [''a'' \<mapsto> 1], None)
         else (obj, Some (Error ''invalid character''))),
      json_MarshalIndent = (\<lambda>obj prefix indent.
         case obj of
           None \<Rightarrow> Inr ''null''
         | Some m \<Rightarrow> (case m ''a'' of None \<Rightarrow> Inr ''{}'' | Some n \<Rightarrow> Inr pretty_a1)),
      yaml_Unmarshal = (\<lambda>body obj.
         if body = [] then (obj, None)
         else if body = ''a: 1'' @ nl then (Some [''a'' \<mapsto> 1], None)
         else (obj, Some (Error ''yaml: unmarshal errors''))),
      yaml_Marshal = (\<lambda>obj.
         case obj of
           None \<Rightarrow> Inr (''{}'' @ nl)
         | Some m \<Rightarrow> (case m ''a'' of None \<Rightarrow> Inr (''{}'' @ nl) | Some n \<Rightarrow> Inr (''a: 1'' @ nl))),
      yaml_Marshal_snapshot = (\<lambda>s. Inr (''testcase-snapshot:'' @ nl))\<rparr>\<close>

text \<open>The same codec with a \<open>yaml.Marshal\<close> that rejects every snapshot.\<close>

definition failing_codec :: "int codec" where
  "failing_codec = demo_codec\<lparr>yaml_Marshal_snapshot := (\<lambda>s. Inl (Error ''boom''))\<rparr>"


definition demo_response :: "int \<Rightarrow> Header \<Rightarrow> string \<Rightarrow> HttpResponse" where
  "demo_response code h body =
     \<lparr>res_Status = [], res_StatusCode = code, res_Version = ''HTTP/1.1'',
      res_Header = h, res_ContentLength = 0, res_Body = body\<rparr>"

definition two_headers :: Header where
  "two_headers = [''Content-Type'' \<mapsto> [''text/plain''], ''Server'' \<mapsto> [''opwire'']]"

definition mixed_headers :: Header where
  "mixed_headers = [''Content-Type'' \<mapsto> [''text/plain''], ''Set-Cookie'' \<mapsto> [''a=1'', ''b=2'']]"

text \<open>
  Modelled from the spec: \<open>utils.UrlJoin\<close> is not among the sources. The spec asks for
  "a join that normalizes exactly one separating slash regardless of trailing/leading
  slashes on either side".
\<close>

definition UrlJoin_spec :: "string \<Rightarrow> string \<Rightarrow> string \<times> error option" where
  "UrlJoin_spec root path =
     (rev (dropWhile (\<lambda>c. c = CHR ''/'') (rev root)) @ ''/'' @ dropWhile (\<lambda>c. c = CHR ''/'') path,
      None)"

definition demo_lowReq :: "string \<Rightarrow> string option \<Rightarrow> LowRequest" where
  "demo_lowReq method body =
     \<lparr>lr_Method = method,
      lr_URL = Some \<lparr>url_RequestURI = ''/orders'', url_Path = ''/orders'', url_Host = ''example.org''\<rparr>,
      lr_Proto = ''HTTP/1.1'', lr_Header = Map.empty, lr_Body = body\<rparr>"

definition demo_lowRes :: LowResponse where
  "demo_lowRes =
     \<lparr>lres_Proto = ''HTTP/1.1'', lres_Status = ''200 OK'', lres_StatusCode = 200,
      lres_Header = Map.empty, lres_Body = Some (''hello'', None)\<rparr>"

text \<open>A transport that answers every request with \<open>200 OK\<close> and the body \<open>hello\<close>.\<close>

definition demo_net :: net where
  "demo_net =
     \<lparr>UrlJoin = UrlJoin_spec,
      http_NewRequest = (\<lambda>method url body. Returned (Inr (demo_lowReq method body))),
      Header_Add = (\<lambda>h k v. h(k \<mapsto> (case h k of None \<Rightarrow> [v] | Some vs \<Rightarrow> vs @ [v]))),
      Request_UserAgent = (\<lambda>r. []),
      Client_Do = (\<lambda>r. (Some demo_lowRes, None))\<rparr>"

definition demo_opts :: HttpInvokerOptions where
  "demo_opts = \<lparr>opts_PDP = ''http://example.org'', opts_Version = ''1.0''\<rparr>"

definition demo_invoker :: HttpInvoker where
  "demo_invoker = \<lparr>pdp = ''http://example.org'', generator = Some \<lparr>gen_Version = ''1.0''\<rparr>\<rparr>"

definition demo_request :: HttpRequest where
  "demo_request =
     \<lparr>req_Method = ''POST'', req_Url = [], req_PDP = [], req_Path = ''/orders'',
      req_Headers = [], req_Body = ''ping''\<rparr>"

text \<open>An interceptor that is a \<open>SnapshotGenerator\<close> only, with target writer \<open>w\<close>.\<close>

definition snapshot_to :: "Writer \<Rightarrow> Interceptor" where
  "snapshot_to w = \<lparr>ic_ExplanationWriter = None, ic_SnapshotGenerator = Some (Some w)\<rparr>"

text \<open>The events of the post-processing loop for the interceptors from position \<open>i\<close> on.\<close>

definition post_round ::
  "'v codec \<Rightarrow> (site \<Rightarrow> string list) \<Rightarrow> TestGenerator option \<Rightarrow> HttpRequest \<Rightarrow> HttpResponse \<Rightarrow>
     nat \<times> Interceptor \<Rightarrow> event list" where
  "post_round cd ro g req res p =
     post_explain ro res (fst p) (snd p) @ fst (post_snapshot cd ro g req res (fst p) (snd p))"

section \<open>Lemmas on the header loop\<close>

lemmas sniff_defs = synth_body_def sniff_json_def sniff_yaml_def sniff_flat_def RefOfString_def

lemma header_items_acc: "header_items h ks items = items @ concat (map (header_item h) ks)"
  by (induction ks arbitrary: items) simp_all

lemma header_item_set:
  "set (header_item h k) = {\<lparr>mh_Name = Some k, mh_IsEqualTo = Some v\<rparr> | v. h k = Some [v]}"
  by (auto simp: header_item_def length_Suc_conv split: option.splits)

lemma header_item_name:
  "it \<in> set (header_item h k) \<Longrightarrow> mh_Name it = Some k"
  by (auto simp: header_item_set)

lemma header_item_distinct: "distinct (header_item h k)"
  by (simp add: header_item_def split: option.splits)

lemma header_items_set:
  "set (header_items h ks []) =
     {\<lparr>mh_Name = Some k, mh_IsEqualTo = Some v\<rparr> | k v. k \<in> set ks \<and> h k = Some [v]}"
  by (auto simp: header_items_acc header_item_set)

lemma header_items_distinct:
  "distinct ks \<Longrightarrow> distinct (header_items h ks [])"
  unfolding header_items_acc
proof (induction ks)
  case Nil
  then show ?case by simp
next
  case (Cons k ks)
  have "set (header_item h k) \<inter> set (concat (map (header_item h) ks)) = {}"
  proof (rule ccontr)
    assume "set (header_item h k) \<inter> set (concat (map (header_item h) ks)) \<noteq> {}"
    then obtain it k' where a: "it \<in> set (header_item h k)" and b: "k' \<in> set ks"
      and c: "it \<in> set (header_item h k')" by auto
    from a c have "k = k'" by (auto dest!: header_item_name)
    with b Cons.prems show False by simp
  qed
  with Cons show ?case by (simp add: header_item_distinct)
qed

lemma header_items_mset:
  "mset ks1 = mset ks2 \<Longrightarrow> mset (header_items h ks1 []) = mset (header_items h ks2 [])"
proof -
  assume a: "mset ks1 = mset ks2"
  have "mset (concat (map f ks)) = (\<Sum>k\<in>#mset ks. mset (f k))" for f :: "string \<Rightarrow> MeasureHeader list" and ks
    by (induction ks) simp_all
  with a show ?thesis by (simp add: header_items_acc)
qed

lemma range_order_mset:
  "range_order h ks1 \<Longrightarrow> range_order h ks2 \<Longrightarrow> mset ks1 = mset ks2"
  by (metis range_order_def set_eq_iff_mset_eq_distinct)

lemma range_order_two: "range_order two_headers [''Content-Type'', ''Server'']"
  by (auto simp add: range_order_def two_headers_def)

lemma range_order_two': "range_order two_headers [''Server'', ''Content-Type'']"
  by (auto simp add: range_order_def two_headers_def)

lemma range_order_mixed: "range_order mixed_headers [''Set-Cookie'', ''Content-Type'']"
  by (auto simp add: range_order_def mixed_headers_def)

lemma card_mixed: "card (dom mixed_headers) = 2"
  by (simp add: mixed_headers_def)

lemma card_two: "card (dom two_headers) = 2"
  by (simp add: two_headers_def)


section \<open>Body sniffing\<close>

text \<open>
  C1. A body on which both \<open>json.Unmarshal\<close> and \<open>yaml.Unmarshal\<close> return an error gets
  the format tag \<open>flat\<close>, its exact-equality value is the raw body, its match pattern is
  \<open>.*\<close>, and no \<open>includes\<close> snippet is set. The YAML decoder is handed the map that
  the JSON decoder left behind.
\<close>

theorem C1_flat_body:
  assumes "json_Unmarshal cd (res_Body r) (Some Map.empty) = (obj1, Some e1)"
      and "yaml_Unmarshal cd (res_Body r) obj1 = (obj2, Some e2)"
  shows "\<exists>e. generateExpectation cd ks (Some r) = Some e \<and>
           exp_Body e = Some \<lparr>b_HasFormat = Some ''flat'', b_Includes = None,
                               b_IsEqualTo = Some (res_Body r), b_MatchWith = Some ''.*''\<rparr>"
  using assms by (simp add: generateExpectation_def sniff_defs)

theorem C1_flat_body_witness:
  "json_Unmarshal demo_codec (res_Body (demo_response 200 Map.empty ''hello'')) (Some Map.empty)
     = (Some Map.empty, Some (Error ''invalid character'')) \<and>
   yaml_Unmarshal demo_codec (res_Body (demo_response 200 Map.empty ''hello'')) (Some Map.empty)
     = (Some Map.empty, Some (Error ''yaml: unmarshal errors'')) \<and>
   (\<exists>e. generateExpectation demo_codec [] (Some (demo_response 200 Map.empty ''hello'')) = Some e \<and>
        exp_Body e = Some \<lparr>b_HasFormat = Some ''flat'', b_Includes = None,
                            b_IsEqualTo = Some ''hello'', b_MatchWith = Some ''.*''\<rparr>)"
proof -
  have j: "json_Unmarshal demo_codec (res_Body (demo_response 200 Map.empty ''hello'')) (Some Map.empty)
     = (Some Map.empty, Some (Error ''invalid character''))"
    by (simp add: demo_codec_def demo_response_def pretty_a1_def nl_def)
  have y: "yaml_Unmarshal demo_codec (res_Body (demo_response 200 Map.empty ''hello'')) (Some Map.empty)
     = (Some Map.empty, Some (Error ''yaml: unmarshal errors''))"
    by (simp add: demo_codec_def demo_response_def nl_def)
  show ?thesis
    using j y C1_flat_body [OF j y, of "[]"] by (simp add: demo_response_def)
qed

text \<open>
  The empty body is not such a body: \<open>yaml.Unmarshal\<close> returns nil on it, so a 404 with
  an empty body gets the tag \<open>yaml\<close> and the snippet that \<open>yaml.Marshal\<close> prints for
  the empty map; the exact-equality value and the pattern stay unset.
\<close>

theorem C1_counterexample:
  "generateExpectation demo_codec [] (Some (demo_response 404 Map.empty [])) =
     Some \<lparr>exp_StatusCode = Some \<lparr>sc_IsEqualTo = Some 404\<rparr>,
           exp_Headers = None,
           exp_Body = Some \<lparr>b_HasFormat = Some ''yaml'', b_Includes = Some (''{}'' @ nl),
                             b_IsEqualTo = None, b_MatchWith = None\<rparr>\<rparr> \<and>
   b_HasFormat (synth_body demo_codec []) \<noteq> Some ''flat'' \<and>
   b_IsEqualTo (synth_body demo_codec []) \<noteq> Some []"
  by (simp add: generateExpectation_def synth_headers_def sniff_defs demo_codec_def
      demo_response_def pretty_a1_def)







section \<open>Status code and headers\<close>

text \<open>
  C7. For every non-nil captured response the synthesized expectation exists and holds a
  status-code assertion whose exact-equality value is the response's numeric status code.
\<close>

theorem C7_status_code:
  "\<exists>e. generateExpectation cd ks (Some r) = Some e \<and>
        exp_StatusCode e = Some \<lparr>sc_IsEqualTo = Some (res_StatusCode r)\<rparr>"
  by (simp add: generateExpectation_def)

text \<open>
  C2. Let \<open>ks\<close> be an order in which the run time may visit the header map. With no
  header name there is no headers assertion. With at least one, the assertion is present,
  \<open>HasTotal\<close> is the number of distinct names, the itemized list has no duplicates and
  holds the pair (name, value) exactly for the names that carry exactly one value; a name
  with two or more values is a key of the map, so it is counted, and no item bears it.
\<close>

theorem C2_headers:
  assumes "range_order (res_Header r) ks"
  shows "\<exists>e. generateExpectation cd ks (Some r) = Some e \<and>
           (dom (res_Header r) = {} \<longrightarrow> exp_Headers e = None) \<and>
           (dom (res_Header r) \<noteq> {} \<longrightarrow>
              (\<exists>hs. exp_Headers e = Some hs \<and>
                 hs_HasTotal hs = Some (int (card (dom (res_Header r)))) \<and>
                 distinct (hs_Items hs) \<and>
                 (\<forall>it. it \<in> set (hs_Items hs) \<longleftrightarrow>
                    (\<exists>k v. res_Header r k = Some [v] \<and>
                       it = \<lparr>mh_Name = Some k, mh_IsEqualTo = Some v\<rparr>)) \<and>
                 (\<forall>k vals. res_Header r k = Some vals \<and> 2 \<le> length vals \<longrightarrow>
                    k \<in> dom (res_Header r) \<and>
                    (\<forall>it. it \<in> set (hs_Items hs) \<longrightarrow> mh_Name it \<noteq> Some k))))"
proof -
  let ?h = "res_Header r"
  from assms have fin: "finite (dom ?h)" and ks: "set ks = dom ?h" and dist: "distinct ks"
    by (auto simp: range_order_def intro: finite_subset[OF _ finite_set])
  have empty: "dom ?h = {} \<Longrightarrow> synth_headers ks ?h = None"
    by (simp add: synth_headers_def)
  have pos: "dom ?h \<noteq> {} \<Longrightarrow> 0 < card (dom ?h)"
    using fin by (simp add: card_gt_0_iff)
  have some: "dom ?h \<noteq> {} \<Longrightarrow> synth_headers ks ?h =
      Some \<lparr>hs_HasTotal = Some (int (card (dom ?h))), hs_Items = header_items ?h ks []\<rparr>"
    using pos by (simp add: synth_headers_def Let_def)
  have items: "it \<in> set (header_items ?h ks []) \<longleftrightarrow>
      (\<exists>k v. ?h k = Some [v] \<and> it = \<lparr>mh_Name = Some k, mh_IsEqualTo = Some v\<rparr>)" for it
    using ks by (auto simp: header_items_set)
  have multi: "mh_Name it \<noteq> Some k"
    if "?h k = Some vals" "2 \<le> length vals" "it \<in> set (header_items ?h ks [])" for k vals it
    using that by (auto simp: items)
  show ?thesis
    using empty some items multi header_items_distinct[OF dist, of ?h]
    by (auto simp: generateExpectation_def)
qed

theorem C2_headers_witness:
  "range_order (res_Header (demo_response 200 mixed_headers ''hello'')) [''Set-Cookie'', ''Content-Type''] \<and>
   (\<exists>e. generateExpectation demo_codec [''Set-Cookie'', ''Content-Type'']
           (Some (demo_response 200 mixed_headers ''hello'')) = Some e \<and>
        exp_Headers e =
          Some \<lparr>hs_HasTotal = Some 2,
                hs_Items = [\<lparr>mh_Name = Some ''Content-Type'', mh_IsEqualTo = Some ''text/plain''\<rparr>]\<rparr>)"
proof -
  have r: "range_order (res_Header (demo_response 200 mixed_headers ''hello'')) [''Set-Cookie'', ''Content-Type'']"
    using range_order_mixed by (simp add: demo_response_def)
  have i: "header_items mixed_headers [''Set-Cookie'', ''Content-Type''] [] =
      [\<lparr>mh_Name = Some ''Content-Type'', mh_IsEqualTo = Some ''text/plain''\<rparr>]"
    by (simp add: header_item_def mixed_headers_def)
  show ?thesis
    using r C2_headers [OF r, of demo_codec] i
    by (simp add: generateExpectation_def synth_headers_def card_mixed demo_response_def)
qed

section \<open>Two runs of the synthesis\<close>

text \<open>
  C8. Two runs of the synthesis on the same captured response, each with its own order of
  visiting the header map, give the same status-code assertion, the same body assertion,
  the same header total, and itemized lists with the same items; the order of the items
  is the order of the visit. The synthesis is a function to \<open>Expectation option\<close>: it
  has no events.
\<close>

theorem C8_order_independent:
  assumes "range_order (res_Header r) ks1" and "range_order (res_Header r) ks2"
  shows "\<exists>e1 e2. generateExpectation cd ks1 (Some r) = Some e1 \<and>
           generateExpectation cd ks2 (Some r) = Some e2 \<and>
           exp_StatusCode e1 = exp_StatusCode e2 \<and>
           exp_Body e1 = exp_Body e2 \<and>
           map_option hs_HasTotal (exp_Headers e1) = map_option hs_HasTotal (exp_Headers e2) \<and>
           map_option (\<lambda>hs. mset (hs_Items hs)) (exp_Headers e1) =
             map_option (\<lambda>hs. mset (hs_Items hs)) (exp_Headers e2)"
  using header_items_mset [OF range_order_mset [OF assms], of "res_Header r"]
  by (simp add: generateExpectation_def synth_headers_def Let_def)

theorem C8_order_independent_witness:
  "range_order (res_Header (demo_response 200 two_headers ''hello'')) [''Content-Type'', ''Server''] \<and>
   range_order (res_Header (demo_response 200 two_headers ''hello'')) [''Server'', ''Content-Type''] \<and>
   map_option (\<lambda>hs. mset (hs_Items hs))
     (exp_Headers (the (generateExpectation demo_codec [''Content-Type'', ''Server'']
        (Some (demo_response 200 two_headers ''hello''))))) =
   map_option (\<lambda>hs. mset (hs_Items hs))
     (exp_Headers (the (generateExpectation demo_codec [''Server'', ''Content-Type'']
        (Some (demo_response 200 two_headers ''hello'')))))"
proof -
  have a: "range_order (res_Header (demo_response 200 two_headers ''hello'')) [''Content-Type'', ''Server'']"
    using range_order_two by (simp add: demo_response_def)
  have b: "range_order (res_Header (demo_response 200 two_headers ''hello'')) [''Server'', ''Content-Type'']"
    using range_order_two' by (simp add: demo_response_def)
  show ?thesis
    using a b C8_order_independent [OF a b, of demo_codec] by auto
qed

text \<open>
  With the headers \<open>Content-Type: text/plain\<close> and \<open>Server: opwire\<close>, both orders of
  visiting the two keys are possible, and the two runs give expectations that differ in
  the itemized list.
\<close>

theorem C8_counterexample:
  "range_order two_headers [''Content-Type'', ''Server''] \<and>
   range_order two_headers [''Server'', ''Content-Type''] \<and>
   generateExpectation demo_codec [''Content-Type'', ''Server''] (Some (demo_response 200 two_headers ''hello''))
     \<noteq> generateExpectation demo_codec [''Server'', ''Content-Type''] (Some (demo_response 200 two_headers ''hello''))"
proof -
  have i1: "header_items two_headers [''Content-Type'', ''Server''] [] =
      [\<lparr>mh_Name = Some ''Content-Type'', mh_IsEqualTo = Some ''text/plain''\<rparr>,
       \<lparr>mh_Name = Some ''Server'', mh_IsEqualTo = Some ''opwire''\<rparr>]"
    by (simp add: header_item_def two_headers_def)
  have i2: "header_items two_headers [''Server'', ''Content-Type''] [] =
      [\<lparr>mh_Name = Some ''Server'', mh_IsEqualTo = Some ''opwire''\<rparr>,
       \<lparr>mh_Name = Some ''Content-Type'', mh_IsEqualTo = Some ''text/plain''\<rparr>]"
    by (simp add: header_item_def two_headers_def)
  show ?thesis
    using range_order_two range_order_two' i1 i2
    by (simp add: generateExpectation_def synth_headers_def card_two demo_response_def)
qed

section \<open>The nil request\<close>

text \<open>
  C9. \<open>Do\<close> with a nil request returns the error "Request must not be nil" and has no
  event: no getter of an interceptor is called and there is no round trip. The result is
  the same for every transport, so no URL is resolved.
\<close>

theorem C9_nil_request:
  "Do nt cd ro c None ics = ([], Returned (Inl (Error ''Request must not be nil'')))"
  by (simp add: Do_def)

section \<open>URL resolution\<close>

lemma NewHttpInvoker_Some:
  "NewHttpInvoker (Some opts) = Returned (c, e) \<longleftrightarrow>
     c = \<lparr>pdp = (if opts_PDP opts = [] then DEFAULT_PDP else opts_PDP opts),
          generator = Some \<lparr>gen_Version = opts_Version opts\<rparr>\<rparr> \<and> e = None"
  by (auto simp: NewHttpInvoker_def)

text \<open>
  C5. For an invoker made by \<open>NewHttpInvoker\<close> from the options \<open>opts\<close> and a non-nil
  request: a non-empty \<open>Url\<close> is used as it is; otherwise the root is the request's
  \<open>PDP\<close> when that is non-empty, else the \<open>PDP\<close> of the options when that is
  non-empty, else \<open>http://localhost:17779\<close>, and it is joined with the request's \<open>Path\<close>,
  or with \<open>/$\<close> when the path is empty. This is the URL that \<open>Do\<close> hands to
  \<open>http.NewRequest\<close>: a \<open>NewRequest\<close> that fails with the URL as its message makes \<open>Do\<close>
  return that message.
\<close>

theorem C5_url_resolution:
  assumes "NewHttpInvoker (Some opts) = Returned (c, e)"
  shows "\<exists>url. url =
           (if req_Url req \<noteq> [] then req_Url req
            else fst (UrlJoin nt
                   (if req_PDP req \<noteq> [] then req_PDP req
                    else if opts_PDP opts \<noteq> [] then opts_PDP opts
                    else ''http://localhost:17779'')
                   (if req_Path req \<noteq> [] then req_Path req else ''/$''))) \<and>
           resolveUrl nt c req = url \<and>
           Do (nt\<lparr>http_NewRequest := (\<lambda>method u body. Returned (Inl (Error u)))\<rparr>) cd ro c (Some req) ics =
             ([], Returned (Inl (Error url)))"
  using assms
  by (auto simp: NewHttpInvoker_Some resolveUrl_def Do_def DEFAULT_PDP_def Let_def)

theorem C5_url_resolution_witness:
  "NewHttpInvoker (Some demo_opts) = Returned (demo_invoker, None) \<and>
   resolveUrl demo_net demo_invoker (demo_request\<lparr>req_PDP := ''http://pdp.test/'', req_Path := []\<rparr>)
     = ''http://pdp.test/$''"
proof -
  have n: "NewHttpInvoker (Some demo_opts) = Returned (demo_invoker, None)"
    by (simp add: NewHttpInvoker_def demo_opts_def demo_invoker_def)
  show ?thesis
    using n C5_url_resolution [OF n, where nt = demo_net and cd = demo_codec and ics = "[]"
        and ro = "\<lambda>s. []" and req = "demo_request\<lparr>req_PDP := ''http://pdp.test/'', req_Path := []\<rparr>"]
    by (simp add: demo_request_def demo_net_def UrlJoin_spec_def)
qed

text \<open>
  An invoker made from options with the \<open>PDP\<close> \<open>http://example.org\<close> resolves a request
  that has a path only against that root, not against \<open>http://localhost:17779\<close>.
\<close>

theorem C5_counterexample:
  "NewHttpInvoker (Some demo_opts) = Returned (demo_invoker, None) \<and>
   req_Url demo_request = [] \<and> req_PDP demo_request = [] \<and>
   resolveUrl demo_net demo_invoker demo_request = ''http://example.org/orders'' \<and>
   fst (UrlJoin demo_net ''http://localhost:17779'' (req_Path demo_request)) = ''http://localhost:17779/orders'' \<and>
   resolveUrl demo_net demo_invoker demo_request
     \<noteq> fst (UrlJoin demo_net ''http://localhost:17779'' (req_Path demo_request))"
  by (simp add: NewHttpInvoker_def demo_opts_def demo_invoker_def resolveUrl_def demo_request_def
      demo_net_def UrlJoin_spec_def)

section \<open>The snapshot serializer\<close>

lemma sniff_json_snapshot_free:
  "sniff_json (cd\<lparr>yaml_Marshal_snapshot := f\<rparr>) body st = sniff_json cd body st"
  by (cases st) (simp add: sniff_json_def cong: if_cong)

lemma sniff_yaml_snapshot_free:
  "sniff_yaml (cd\<lparr>yaml_Marshal_snapshot := f\<rparr>) body st = sniff_yaml cd body st"
  by (cases st) (simp add: sniff_yaml_def cong: if_cong)

lemma generateExpectation_snapshot_free:
  "generateExpectation (cd\<lparr>yaml_Marshal_snapshot := f\<rparr>) ks res = generateExpectation cd ks res"
  by (simp add: generateExpectation_def synth_body_def sniff_json_snapshot_free
      sniff_yaml_snapshot_free cong: option.case_cong)

text \<open>
  C6. For an invoker made by \<open>NewHttpInvoker\<close> from the options \<open>opts\<close>, and every request
  and response, there is one test case, with the title \<open><Generated testcase>\<close>, the
  version of the options, the request and the synthesized expectation, such that the
  serializer hands the snapshot with exactly that test case to \<open>yaml.Marshal\<close>. Whatever
  \<open>yaml.Marshal\<close> is: when it fails, the serializer writes one diagnostic line to the
  writer and returns the error; when it succeeds, the serializer writes an empty line and
  the text, and returns nil.
\<close>

theorem C6_generateTestCase:
  assumes "NewHttpInvoker (Some opts) = Returned (c, e)"
  shows "\<exists>tc. tc_Title tc = ''<Generated testcase>'' \<and>
           tc_Version tc = opts_Version opts \<and>
           tc_Request tc = req \<and>
           tc_Expectation tc = generateExpectation cd ks res \<and>
           (\<forall>f. generateTestCase (cd\<lparr>yaml_Marshal_snapshot := f\<rparr>) ks (generator c) w req res =
              (case f \<lparr>TestCases = [tc]\<rparr> of
                 Inl err \<Rightarrow>
                   ([Fprintln w [''Cannot marshal generated testcase, error: %s'', Error_msg err]],
                    Returned (Some err))
               | Inr script \<Rightarrow> ([Fprintln w [], Fprintln w [script]], Returned None)))"
proof -
  let ?tc = "generated_case cd ks \<lparr>gen_Version = opts_Version opts\<rparr> req res"
  have g: "generator c = Some \<lparr>gen_Version = opts_Version opts\<rparr>"
    using assms by (simp add: NewHttpInvoker_Some)
  have "generateTestCase (cd\<lparr>yaml_Marshal_snapshot := f\<rparr>) ks (generator c) w req res =
          (case f \<lparr>TestCases = [?tc]\<rparr> of
             Inl err \<Rightarrow>
               ([Fprintln w [''Cannot marshal generated testcase, error: %s'', Error_msg err]],
                Returned (Some err))
           | Inr script \<Rightarrow> ([Fprintln w [], Fprintln w [script]], Returned None))" for f
    by (simp add: g generateTestCase_def generated_case_def generateExpectation_snapshot_free
        Let_def)
  moreover have "tc_Title ?tc = ''<Generated testcase>''" "tc_Version ?tc = opts_Version opts"
    "tc_Request ?tc = req" "tc_Expectation ?tc = generateExpectation cd ks res"
    by (simp_all add: generated_case_def)
  ultimately show ?thesis by blast
qed

theorem C6_generateTestCase_witness:
  "NewHttpInvoker (Some demo_opts) = Returned (demo_invoker, None) \<and>
   generateTestCase failing_codec [] (generator demo_invoker) 1 (Some demo_request)
       (Some (demo_response 200 Map.empty ''hello'')) =
     ([Fprintln 1 [''Cannot marshal generated testcase, error: %s'', ''boom'']],
      Returned (Some (Error ''boom''))) \<and>
   generateTestCase demo_codec [] (generator demo_invoker) 1 (Some demo_request)
       (Some (demo_response 200 Map.empty ''hello'')) =
     ([Fprintln 1 [], Fprintln 1 [''testcase-snapshot:'' @ nl]], Returned None)"
proof -
  have n: "NewHttpInvoker (Some demo_opts) = Returned (demo_invoker, None)"
    by (simp add: NewHttpInvoker_def demo_opts_def demo_invoker_def)
  show ?thesis
    using n C6_generateTestCase [OF n, of "Some demo_request" demo_codec "[]"
        "Some (demo_response 200 Map.empty ''hello'')" 1]
    by (simp add: generateTestCase_def failing_codec_def demo_codec_def demo_invoker_def)
qed

section \<open>The post-processing loop\<close>

lemma post_snapshot_returns:
  "snd (post_snapshot cd ro (Some g) req res i ic) = None"
  by (simp add: post_snapshot_def generateTestCase_def Let_def split: option.splits sum.splits)

lemma postProcess_rounds:
  "postProcess cd ro (Some g) req res i ics =
     (concat (map (post_round cd ro (Some g) req res) (zip [i..<i + length ics] ics)), None)"
proof (induction ics arbitrary: i)
  case Nil
  then show ?case by simp
next
  case (Cons ic ics)
  obtain evs where s: "post_snapshot cd ro (Some g) req res i ic = (evs, None)"
    using post_snapshot_returns [of cd ro g req res i ic]
    by (cases "post_snapshot cd ro (Some g) req res i ic") simp
  have z: "zip [i..<i + length (ic # ics)] (ic # ics) = (i, ic) # zip [Suc i..<Suc i + length ics] ics"
    by (subst upt_conv_Cons) simp_all
  show ?case
    unfolding z by (simp add: s Cons.IH post_round_def)
qed

lemma failed_snapshot_events:
  assumes "ic_SnapshotGenerator ic = Some (Some w)"
      and "yaml_Marshal_snapshot cd
             \<lparr>TestCases = [generated_case cd (ro (Synth j)) g (Some req) (Some res)]\<rparr> = Inl err"
  shows "post_round cd ro (Some g) req res (j, ic) =
           post_explain ro res j ic @
           [GetTargetWriter j,
            Fprintln w [''Cannot marshal generated testcase, error: %s'', Error_msg err]]"
  using assms by (simp add: post_round_def post_snapshot_def generateTestCase_def Let_def)

text \<open>
  C10. Let the invoker have its generator, and let the request be built, answered and
  read without error. Then, whatever the codec does with a snapshot, \<open>Do\<close> returns the
  captured response with a nil error, and its events are: the pre-processing, the round
  trip, the read, one round of post-processing for every interceptor in order, and the
  release of the body. In particular every snapshot-capable interceptor whose snapshot
  cannot be marshalled has its getter called and the diagnostic line written to its
  writer, wherever it stands in the list.
\<close>

theorem C10_snapshot_failure_ignored:
  assumes gen: "generator c = Some g"
      and new: "http_NewRequest nt
                  (if length (req_Method req) > 0 then req_Method req else ''GET'')
                  (resolveUrl nt c req)
                  (if length (req_Body req) > 0 then Some (req_Body req) else None)
                = Returned (Inr lowReq0)"
      and rt: "Client_Do nt (add_headers nt (req_Headers req) lowReq0) = (Some lowRes, None)"
      and rd: "lres_Body lowRes = Some (bytes, None)"
  shows "Do nt cd ro c (Some req) ics =
           (preProcess nt ro (add_headers nt (req_Headers req) lowReq0) 0 ics
              @ [RoundTrip (add_headers nt (req_Headers req) lowReq0), ReadAll]
              @ concat (map (post_round cd ro (Some g) req (capture lowRes bytes))
                          (zip [0..<length ics] ics))
              @ [Close],
            Returned (Inr (capture lowRes bytes))) \<and>
         (\<forall>j w err. j < length ics \<and> ic_SnapshotGenerator (ics ! j) = Some (Some w) \<and>
              yaml_Marshal_snapshot cd
                \<lparr>TestCases = [generated_case cd (ro (Synth j)) g (Some req)
                                 (Some (capture lowRes bytes))]\<rparr> = Inl err \<longrightarrow>
              GetTargetWriter j \<in> set (fst (Do nt cd ro c (Some req) ics)) \<and>
              Fprintln w [''Cannot marshal generated testcase, error: %s'', Error_msg err]
                \<in> set (fst (Do nt cd ro c (Some req) ics)))"
proof -
  let ?res = "capture lowRes bytes"
  let ?rounds = "concat (map (post_round cd ro (Some g) req ?res) (zip [0..<length ics] ics))"
  have p: "postProcess cd ro (generator c) req ?res 0 ics = (?rounds, None)"
    using postProcess_rounds [of cd ro g req ?res 0 ics] by (simp add: gen)
  have d: "Do nt cd ro c (Some req) ics =
           (preProcess nt ro (add_headers nt (req_Headers req) lowReq0) 0 ics
              @ [RoundTrip (add_headers nt (req_Headers req) lowReq0), ReadAll]
              @ ?rounds @ [Close],
            Returned (Inr ?res))"
    using new rt rd p by (simp add: Do_def Let_def)
  have m: "GetTargetWriter j \<in> set ?rounds \<and>
           Fprintln w [''Cannot marshal generated testcase, error: %s'', Error_msg err] \<in> set ?rounds"
    if j: "j < length ics" and s: "ic_SnapshotGenerator (ics ! j) = Some (Some w)"
      and f: "yaml_Marshal_snapshot cd
                \<lparr>TestCases = [generated_case cd (ro (Synth j)) g (Some req) (Some ?res)]\<rparr> = Inl err"
    for j w err
  proof -
    have "(j, ics ! j) \<in> set (zip [0..<length ics] ics)"
      unfolding in_set_zip using j by (intro exI[of _ j]) simp
    then have "set (post_round cd ro (Some g) req ?res (j, ics ! j)) \<subseteq> set ?rounds"
      by auto
    moreover have "post_round cd ro (Some g) req ?res (j, ics ! j) =
        post_explain ro ?res j (ics ! j) @
        [GetTargetWriter j,
         Fprintln w [''Cannot marshal generated testcase, error: %s'', Error_msg err]]"
      using s f by (rule failed_snapshot_events)
    ultimately show ?thesis by auto
  qed
  show ?thesis
    unfolding d using m by auto
qed

theorem C10_snapshot_failure_ignored_witness:
  "generator demo_invoker = Some \<lparr>gen_Version = ''1.0''\<rparr> \<and>
   http_NewRequest demo_net ''POST'' (resolveUrl demo_net demo_invoker demo_request) (Some ''ping'')
     = Returned (Inr (demo_lowReq ''POST'' (Some ''ping''))) \<and>
   Client_Do demo_net (add_headers demo_net [] (demo_lowReq ''POST'' (Some ''ping'')))
     = (Some demo_lowRes, None) \<and>
   lres_Body demo_lowRes = Some (''hello'', None) \<and>
   Do demo_net failing_codec (\<lambda>s. []) demo_invoker (Some demo_request) [snapshot_to 1, snapshot_to 2] =
     ([RoundTrip (demo_lowReq ''POST'' (Some ''ping'')), ReadAll,
       GetTargetWriter 0, Fprintln 1 [''Cannot marshal generated testcase, error: %s'', ''boom''],
       GetTargetWriter 1, Fprintln 2 [''Cannot marshal generated testcase, error: %s'', ''boom''],
       Close],
      Returned (Inr (capture demo_lowRes ''hello'')))"
proof -
  have g: "generator demo_invoker = Some \<lparr>gen_Version = ''1.0''\<rparr>"
    by (simp add: demo_invoker_def)
  have n: "http_NewRequest demo_net
             (if length (req_Method demo_request) > 0 then req_Method demo_request else ''GET'')
             (resolveUrl demo_net demo_invoker demo_request)
             (if length (req_Body demo_request) > 0 then Some (req_Body demo_request) else None)
           = Returned (Inr (demo_lowReq ''POST'' (Some ''ping'')))"
    by (simp add: demo_net_def demo_request_def)
  have r: "Client_Do demo_net
             (add_headers demo_net (req_Headers demo_request) (demo_lowReq ''POST'' (Some ''ping'')))
           = (Some demo_lowRes, None)"
    by (simp add: demo_net_def)
  have b: "lres_Body demo_lowRes = Some (''hello'', None)"
    by (simp add: demo_lowRes_def)
  have u: "[0..<2] = [0, Suc 0]"
    by (simp add: upt_conv_Cons)
  have h: "req_Headers demo_request = []" "req_Method demo_request = ''POST''"
    "req_Body demo_request = ''ping''"
    by (simp_all add: demo_request_def)
  have f: "yaml_Marshal_snapshot failing_codec s = Inl (Error ''boom'')" for s
    by (simp add: failing_codec_def)
  show ?thesis
    using g n r b
      C10_snapshot_failure_ignored [OF g n r b, of failing_codec "\<lambda>s. []" "[snapshot_to 1, snapshot_to 2]"]
    by (simp add: h u f post_round_def post_explain_def post_snapshot_def generateTestCase_def
        snapshot_to_def Let_def)
qed

end
